theory Spec2Isabelle
  imports Complex_Main
begin

section \<open>Python values\<close>

text \<open>
  Every value the three scripts handle comes out of \<^verbatim>\<open>response.json()\<close>, out of
  \<^verbatim>\<open>json.load\<close> or out of a literal of the script, so it is a JSON value: \<^verbatim>\<open>None\<close>, a
  bool, an int, a float, a str, a list or a dict with string keys. A dict is an
  association list in insertion order. Python's floats are idealised as reals and its
  unbounded ints are \<open>int\<close>.
\<close>

datatype json =
    JNull
  | JBool bool
  | JInt int
  | JFloat real
  | JStr string
  | JArr "json list"
  | JObj "(string \<times> json) list"

type_synonym pydict = "(string \<times> json) list"

text \<open>The exception classes the scripts distinguish or can meet.\<close>

datatype exn =
    Timeout
  | ConnectionError
  | HTTPError
  | RequestException
  | AttributeError
  | TypeError
  | KeyError
  | IndexError
  | ValueError
  | OverflowError
  | ZeroDivisionError
  | OSError
  | OtherException

text \<open>Truth value testing (\<^verbatim>\<open>if v\<close>, \<^verbatim>\<open>not v\<close>, \<^verbatim>\<open>v and ...\<close>).\<close>

fun truthy :: "json \<Rightarrow> bool" where
  "truthy JNull = False"
| "truthy (JBool b) = b"
| "truthy (JInt i) = (i \<noteq> 0)"
| "truthy (JFloat r) = (r \<noteq> 0)"
| "truthy (JStr s) = (s \<noteq> [])"
| "truthy (JArr xs) = (xs \<noteq> [])"
| "truthy (JObj kvs) = (kvs \<noteq> [])"

text \<open>\<^verbatim>\<open>d.get(k, default)\<close> on a value known to be a dict.\<close>

definition get_or :: "pydict \<Rightarrow> string \<Rightarrow> json \<Rightarrow> json" where
  "get_or d k dflt = (case map_of d k of None \<Rightarrow> dflt | Some v \<Rightarrow> v)"

text \<open>
  \<^verbatim>\<open>x.get(k, default)\<close> on any value: only a dict has the method, every other value
  raises AttributeError.
\<close>

fun dict_get :: "json \<Rightarrow> string \<Rightarrow> json \<Rightarrow> exn + json" where
  "dict_get (JObj d) k dflt = Inr (get_or d k dflt)"
| "dict_get _ k dflt = Inl AttributeError"

text \<open>
  \<^verbatim>\<open>x[0]\<close>: the first element of a list, the first character of a str; a dict with
  string keys has no key \<^verbatim>\<open>0\<close>; the other values are not subscriptable.
\<close>

fun subscript0 :: "json \<Rightarrow> exn + json" where
  "subscript0 (JArr []) = Inl IndexError"
| "subscript0 (JArr (x # xs)) = Inr x"
| "subscript0 (JStr []) = Inl IndexError"
| "subscript0 (JStr (c # cs)) = Inr (JStr [c])"
| "subscript0 (JObj d) = Inl KeyError"
| "subscript0 _ = Inl TypeError"

text \<open>\<^verbatim>\<open>isinstance(v, (int, float))\<close>; \<^verbatim>\<open>bool\<close> is a subclass of \<^verbatim>\<open>int\<close>.\<close>

fun is_number :: "json \<Rightarrow> bool" where
  "is_number (JInt i) = True"
| "is_number (JFloat r) = True"
| "is_number (JBool b) = True"
| "is_number _ = False"

text \<open>Python's true division \<^verbatim>\<open>a / b\<close> of two ints.\<close>

definition py_truediv :: "int \<Rightarrow> int \<Rightarrow> exn + real" where
  "py_truediv a b = (if b = 0 then Inl ZeroDivisionError else Inr (real_of_int a / real_of_int b))"

text \<open>
  What one HTTP GET does: the call raises, or it returns a response with a status code
  and a body on which \<^verbatim>\<open>response.json()\<close> either raises or yields a value.
\<close>

datatype http = Raises exn | Response int "exn + json"

datatype level = INFO | WARNING | ERROR

section \<open>The Kalshi agent (src/agent/kalshi_agent.py)\<close>

text \<open>
  The attributes of \<^verbatim>\<open>KalshiDataAgent\<close> that its methods read and write. The records
  handed to \<^verbatim>\<open>self.logger\<close> are an output of each method, returned beside the state.
\<close>

record agent =
  config :: json
  data_store :: "pydict list"
  start_time :: real
  total_requests :: int
  successful_requests :: int
  failed_requests :: int
  delay_multiplier :: real

datatype kalshi_msg =
    StartingCollection
  | CollectionFailed exn
  | ApiRequestFailed int
  | RequestError exn
  | StoredDataPoint nat json
  | LowSuccessRate real
  | HighSuccessRate real
  | Performance real real
  | GeneratingFinalReport
  | AllReportsSaved

type_synonym klog = "(level \<times> kalshi_msg) list"

definition default_config :: json where
  "default_config =
     JObj [(''base_delay'', JFloat 1.0), (''num_markets'', JInt 5), (''status_filter'', JStr ''open'')]"

text \<open>
  \<^verbatim>\<open>load_config\<close>: the argument is what \<^verbatim>\<open>open\<close> and \<^verbatim>\<open>json.load\<close> give for the file,
  \<open>None\<close> when either raises.
\<close>

definition load_config :: "json option \<Rightarrow> json" where
  "load_config loaded = (case loaded of Some j \<Rightarrow> j | None \<Rightarrow> default_config)"

text \<open>
  \<^verbatim>\<open>__init__\<close>: \<open>config_file\<close> is \<open>None\<close> when no (or a falsy) path is given, else the
  outcome of reading it; \<open>now\<close> is \<^verbatim>\<open>datetime.now()\<close>. The handlers that
  \<^verbatim>\<open>setup_logging\<close> installs (a stream and the file \<^verbatim>\<open>../logs/data_collection.log\<close>),
  the base URL and the HTTP session are not part of the state modelled.
\<close>

definition agent_init :: "json option option \<Rightarrow> real \<Rightarrow> agent" where
  "agent_init config_file now =
     \<lparr> config = (case config_file of Some loaded \<Rightarrow> load_config loaded | None \<Rightarrow> default_config),
       data_store = [],
       start_time = now,
       total_requests = 0,
       successful_requests = 0,
       failed_requests = 0,
       delay_multiplier = 1.0 \<rparr>"

definition get_success_rate :: "agent \<Rightarrow> real" where
  "get_success_rate s =
     (let total = total_requests s
      in if total > 0 then real_of_int (successful_requests s) / real_of_int total else 1.0)"

definition adjust_strategy :: "agent \<Rightarrow> agent \<times> klog" where
  "adjust_strategy s =
     (let success_rate = get_success_rate s
      in if success_rate < 0.5 then
           (let s' = s\<lparr>delay_multiplier := delay_multiplier s * 2\<rparr>
            in (s', [(WARNING, LowSuccessRate (delay_multiplier s'))]))
         else if success_rate > 0.9 then
           (let s' = s\<lparr>delay_multiplier := delay_multiplier s * 0.8\<rparr>
            in (s', [(INFO, HighSuccessRate (delay_multiplier s'))]))
         else (s, []))"

text \<open>The \<^verbatim>\<open>except Exception\<close> branch of \<^verbatim>\<open>make_api_request\<close>.\<close>

definition request_error :: "exn \<Rightarrow> agent \<Rightarrow> json \<times> agent \<times> klog" where
  "request_error e s =
     (JNull, s\<lparr>failed_requests := failed_requests s + 1\<rparr>, [(ERROR, RequestError e)])"

text \<open>
  \<^verbatim>\<open>make_api_request\<close>, given what \<^verbatim>\<open>self.session.get\<close> does. The request parameters
  are built inside the \<^verbatim>\<open>try\<close>, so a config that is not a dict fails there. The value
  returned is the market (\<open>JNull\<close> for \<^verbatim>\<open>None\<close>).
\<close>

definition make_api_request :: "http \<Rightarrow> agent \<Rightarrow> json \<times> agent \<times> klog" where
  "make_api_request h s =
     (let s1 = s\<lparr>total_requests := total_requests s + 1\<rparr>
      in case dict_get (config s1) ''status_filter'' (JStr ''open'') of
           Inl e \<Rightarrow> request_error e s1
         | Inr status \<Rightarrow>
            (case h of
               Raises e \<Rightarrow> request_error e s1
             | Response status_code body \<Rightarrow>
                 if status_code = 200 then
                   (let s2 = s1\<lparr>successful_requests := successful_requests s1 + 1\<rparr>
                    in case body of
                         Inl e \<Rightarrow> request_error e s2
                       | Inr j \<Rightarrow>
                          (case dict_get j ''markets'' (JArr []) of
                             Inl e \<Rightarrow> request_error e s2
                           | Inr markets \<Rightarrow>
                               if truthy markets then
                                 (case subscript0 markets of
                                    Inl e \<Rightarrow> request_error e s2
                                  | Inr m \<Rightarrow> (m, s2, []))
                               else (JNull, s2, [])))
                 else
                   (JNull, s1\<lparr>failed_requests := failed_requests s1 + 1\<rparr>,
                    [(ERROR, ApiRequestFailed status_code)])))"

definition collect_batch :: "http \<Rightarrow> agent \<Rightarrow> json \<times> agent \<times> klog" where
  "collect_batch h s =
     (let (s1, l1) = (if get_success_rate s < 0.8 then adjust_strategy s else (s, []));
          (d, s2, l2) = make_api_request h s1
      in (d, s2, l1 @ l2))"

text \<open>
  A Python number: the scores below are the int \<^verbatim>\<open>0\<close> on some paths and a float on
  the others.
\<close>

datatype num = PInt int | PFloat real

fun num_val :: "num \<Rightarrow> real" where
  "num_val (PInt i) = real_of_int i"
| "num_val (PFloat r) = r"


text \<open>\<^verbatim>\<open>a + b\<close>, \<^verbatim>\<open>sum(xs)\<close> (which starts from the int 0) and \<^verbatim>\<open>a / n\<close> on numbers.\<close>

fun py_add :: "num \<Rightarrow> num \<Rightarrow> num" where
  "py_add (PInt a) (PInt b) = PInt (a + b)"
| "py_add a b = PFloat (num_val a + num_val b)"

definition py_sum :: "num list \<Rightarrow> num" where
  "py_sum xs = foldl py_add (PInt 0) xs"

definition num_truediv :: "num \<Rightarrow> nat \<Rightarrow> exn + num" where
  "num_truediv a n = (if n = 0 then Inl ZeroDivisionError else Inr (PFloat (num_val a / real n)))"

text \<open>
  \<^verbatim>\<open>process_data\<close>: six \<^verbatim>\<open>data.get\<close> calls, all of which raise AttributeError when
  \<open>data\<close> is not a dict; \<open>now\<close> is \<^verbatim>\<open>datetime.now().isoformat()\<close>.
\<close>

fun process_data :: "string \<Rightarrow> json \<Rightarrow> exn + pydict" where
  "process_data now (JObj data) =
     Inr [(''ticker'', get_or data ''ticker'' (JStr ''N/A'')),
          (''title'', get_or data ''title'' (JStr ''N/A'')),
          (''category'', get_or data ''category'' (JStr ''Unknown'')),
          (''status'', get_or data ''status'' (JStr ''Unknown'')),
          (''last_price'', get_or data ''last_price'' (JInt 0)),
          (''volume'', get_or data ''volume'' (JInt 0)),
          (''collection_timestamp'', JStr now)]"
| "process_data now _ = Inl AttributeError"

text \<open>The \<^verbatim>\<open>for field in [...]\<close> loop of \<^verbatim>\<open>validate_data\<close>, with its early return.\<close>

fun validate_fields :: "pydict \<Rightarrow> string list \<Rightarrow> bool" where
  "validate_fields d [] = True"
| "validate_fields d (field # rest) =
     (if \<not> truthy (get_or d field JNull) \<or> get_or d field JNull = JStr ''N/A'' then False
      else validate_fields d rest)"

definition validate_data :: "pydict \<Rightarrow> bool" where
  "validate_data d = validate_fields d [''ticker'', ''title'', ''category'']"

text \<open>
  \<^verbatim>\<open>process_and_store\<close>: the result is \<open>Inl e\<close> when the call raises; the state is the
  one reached by then (the append comes before the log call that reads the config).
\<close>

definition process_and_store :: "string \<Rightarrow> json \<Rightarrow> agent \<Rightarrow> (exn + unit) \<times> agent \<times> klog" where
  "process_and_store now data s =
     (case process_data now data of
        Inl e \<Rightarrow> (Inl e, s, [])
      | Inr processed \<Rightarrow>
          if validate_data processed then
            (let s' = s\<lparr>data_store := data_store s @ [processed]\<rparr>
             in case dict_get (config s') ''num_markets'' (JInt 5) of
                  Inl e \<Rightarrow> (Inl e, s', [])
                | Inr n \<Rightarrow> (Inr (), s', [(INFO, StoredDataPoint (length (data_store s')) n)]))
          else (Inr (), s, []))"

definition check_completeness :: "agent \<Rightarrow> num" where
  "check_completeness s =
     (if data_store s = [] then PInt 0
      else
        (let total_fields = int (sum_list (map length (data_store s)));
             filled_fields =
               int (sum_list (map (\<lambda>item. length (filter (\<lambda>v. truthy v \<and> v \<noteq> JStr ''N/A'') (map snd item)))
                               (data_store s)))
         in if total_fields > 0 then PFloat (real_of_int filled_fields / real_of_int total_fields)
            else PInt 0))"

definition check_accuracy :: "agent \<Rightarrow> num" where
  "check_accuracy s =
     (if data_store s = [] then PInt 0
      else
        (let accurate =
               int (length (filter (\<lambda>item. is_number (get_or item ''last_price'' JNull) \<and>
                                            is_number (get_or item ''volume'' JNull))
                                   (data_store s)))
         in PFloat (real_of_int accurate / real (length (data_store s)))))"

definition check_consistency :: "agent \<Rightarrow> num" where
  "check_consistency s =
     (if length (data_store s) < 2 then PFloat 1.0
      else
        (let first_keys = set (map fst (hd (data_store s)));
             consistent = int (length (filter (\<lambda>item. set (map fst item) = first_keys) (data_store s)))
         in PFloat (real_of_int consistent / real (length (data_store s)))))"

text \<open>
  \<^verbatim>\<open>assess_data_quality\<close>: the dict of the four metrics, then
  \<^verbatim>\<open>sum(quality_metrics.values()) / len(quality_metrics)\<close>.
\<close>

definition quality_metrics :: "agent \<Rightarrow> (string \<times> num) list" where
  "quality_metrics s =
     [(''completeness'', check_completeness s),
      (''accuracy'', check_accuracy s),
      (''consistency'', check_consistency s),
      (''timeliness'', PFloat 1.0)]"

definition assess_data_quality :: "agent \<Rightarrow> exn + num" where
  "assess_data_quality s =
     (if data_store s = [] then Inr (PInt 0)
      else num_truediv (py_sum (map snd (quality_metrics s))) (length (quality_metrics s)))"

text \<open>\<^verbatim>\<open>len(self.data_store) >= n\<close> for a value \<open>n\<close> read from the config.\<close>

fun len_ge :: "nat \<Rightarrow> json \<Rightarrow> exn + bool" where
  "len_ge k (JInt n) = Inr (int k \<ge> n)"
| "len_ge k (JFloat r) = Inr (real k \<ge> r)"
| "len_ge k (JBool b) = Inr (int k \<ge> (if b then 1 else 0))"
| "len_ge k _ = Inl TypeError"

definition collection_complete :: "agent \<Rightarrow> exn + bool" where
  "collection_complete s =
     (case dict_get (config s) ''num_markets'' (JInt 5) of
        Inl e \<Rightarrow> Inl e
      | Inr n \<Rightarrow> len_ge (length (data_store s)) n)"

definition assess_performance :: "agent \<Rightarrow> (exn + unit) \<times> klog" where
  "assess_performance s =
     (case assess_data_quality s of
        Inl e \<Rightarrow> (Inl e, [])
      | Inr quality \<Rightarrow> (Inr (), [(INFO, Performance (num_val quality) (get_success_rate s))]))"

text \<open>\<^verbatim>\<open>base_delay * self.delay_multiplier\<close> for a value read from the config.\<close>

fun times_float :: "json \<Rightarrow> real \<Rightarrow> exn + real" where
  "times_float (JInt i) m = Inr (real_of_int i * m)"
| "times_float (JFloat r) m = Inr (r * m)"
| "times_float (JBool b) m = Inr ((if b then 1 else 0) * m)"
| "times_float _ m = Inl TypeError"

text \<open>
  \<^verbatim>\<open>time.sleep(secs)\<close>: it first converts the length to the platform's clock type and
  raises OverflowError when the length is beyond what that type holds, then raises
  ValueError on a negative length. The bound \<open>sleep_max\<close> belongs to the platform, not to
  the repository, and is a parameter. The result is the time slept.
\<close>

definition time_sleep :: "real \<Rightarrow> real \<Rightarrow> exn + real" where
  "time_sleep sleep_max secs =
     (if \<bar>secs\<bar> > sleep_max then Inl OverflowError
      else if secs < 0 then Inl ValueError
      else Inr secs)"

text \<open>
  \<^verbatim>\<open>respectful_delay\<close>: \<open>jitter\<close> is the value \<^verbatim>\<open>random.uniform(0.5, 1.5)\<close> draws.
\<close>

definition respectful_delay :: "real \<Rightarrow> real \<Rightarrow> agent \<Rightarrow> exn + real" where
  "respectful_delay sleep_max jitter s =
     (case dict_get (config s) ''base_delay'' (JFloat 1.0) of
        Inl e \<Rightarrow> Inl e
      | Inr base_delay \<Rightarrow>
         (case times_float base_delay (delay_multiplier s) of
            Inl e \<Rightarrow> Inl e
          | Inr d \<Rightarrow> time_sleep sleep_max (d * jitter)))"

text \<open>
  What one pass of the \<^verbatim>\<open>while\<close> loop of \<^verbatim>\<open>run_collection\<close> meets: the outcome of
  its HTTP request, the timestamp of \<^verbatim>\<open>process_data\<close>, the jitter of its delay and
  the longest sleep the platform takes.
\<close>

record tick =
  t_http :: http
  t_now :: string
  t_jitter :: real
  t_sleep_max :: real

definition loop_body :: "tick \<Rightarrow> agent \<Rightarrow> (exn + unit) \<times> agent \<times> klog" where
  "loop_body tk s =
     (let (data, s1, l1) = collect_batch (t_http tk) s;
          (r, s2, l2) = (if truthy data then process_and_store (t_now tk) data s1 else (Inr (), s1, []))
      in case r of
           Inl e \<Rightarrow> (Inl e, s2, l1 @ l2)
         | Inr u \<Rightarrow>
            (case assess_performance s2 of
               (Inl e, l3) \<Rightarrow> (Inl e, s2, l1 @ l2 @ l3)
             | (Inr u, l3) \<Rightarrow>
                (case respectful_delay (t_sleep_max tk) (t_jitter tk) s2 of
                   Inl e \<Rightarrow> (Inl e, s2, l1 @ l2 @ l3)
                 | Inr slept \<Rightarrow> (Inr (), s2, l1 @ l2 @ l3))))"

text \<open>
  The \<^verbatim>\<open>while not self.collection_complete()\<close> loop. It runs for as long as the API
  gives no valid market, so it is given the passes the environment provides: the result
  is \<open>None\<close> when they are used up before the loop ends, else the outcome of the \<^verbatim>\<open>try\<close>
  block (\<open>Inl e\<close> for the exception that ended it), the state and the log.
\<close>

fun collection_loop :: "tick list \<Rightarrow> agent \<Rightarrow> ((exn + unit) \<times> agent \<times> klog) option" where
  "collection_loop [] s =
     (case collection_complete s of
        Inl e \<Rightarrow> Some (Inl e, s, [])
      | Inr done \<Rightarrow> if done then Some (Inr (), s, []) else None)"
| "collection_loop (tk # ticks) s =
     (case collection_complete s of
        Inl e \<Rightarrow> Some (Inl e, s, [])
      | Inr done \<Rightarrow>
          if done then Some (Inr (), s, [])
          else
            (case loop_body tk s of
               (Inl e, s', l) \<Rightarrow> Some (Inl e, s', l)
             | (Inr u, s', l) \<Rightarrow>
                (case collection_loop ticks s' of
                   None \<Rightarrow> None
                 | Some (r, s'', l') \<Rightarrow> Some (r, s'', l @ l'))))"


text \<open>
  The files written: each \<^verbatim>\<open>open(path, 'w')\<close> with its \<^verbatim>\<open>json.dump(value, f)\<close> is a
  pair of the path and the value dumped. \<open>fs path\<close> tells whether the file system lets
  the path be created (a directory) or opened for writing (a file); where it does not,
  the call raises OSError. A dump, once the file is open, is taken to complete.
\<close>

type_synonym files = "(string \<times> json) list"

fun write_all :: "(string \<Rightarrow> bool) \<Rightarrow> files \<Rightarrow> (exn + unit) \<times> files" where
  "write_all fs [] = (Inr (), [])"
| "write_all fs ((path, v) # rest) =
     (if fs path then (let (r, written) = write_all fs rest in (r, (path, v) # written))
      else (Inl OSError, []))"







section \<open>The cat-facts script (src/assignment-scripts/cat-facts.py)\<close>

datatype cat_msg =
    StartingFetch int
  | RetrievedFact nat
  | NoFactFound nat
  | RequestFailedStatus nat int
  | RequestTimedOut
  | ConnectionErrorOccurred
  | RequestErrorOccurred exn
  | UnexpectedError exn
  | RetrievedTotal nat int
  | SavedFacts nat string
  | SaveFactsFailed exn

type_synonym clog = "(level \<times> cat_msg) list"

text \<open>
  The \<^verbatim>\<open>for i in range(num_facts)\<close> loop of \<^verbatim>\<open>get_cat_facts\<close>, from index \<open>i\<close> with
  \<open>k\<close> passes left; \<open>net i\<close> is what \<^verbatim>\<open>requests.get\<close> does at pass \<open>i\<close>. The loop has no
  exception handler of its own: an exception ends it. The result is the exception that
  ended the loop (if any), the facts, the log and the number of requests made.
\<close>

definition after_request ::
  "clog \<Rightarrow> exn option \<times> json list \<times> clog \<times> nat \<Rightarrow> exn option \<times> json list \<times> clog \<times> nat" where
  "after_request l rest = (case rest of (r, facts, l', n) \<Rightarrow> (r, facts, l @ l', Suc n))"

fun fetch_loop :: "(nat \<Rightarrow> http) \<Rightarrow> nat \<Rightarrow> nat \<Rightarrow> json list \<Rightarrow> exn option \<times> json list \<times> clog \<times> nat" where
  "fetch_loop net i 0 facts = (None, facts, [], 0)"
| "fetch_loop net i (Suc k) facts =
     (case net i of
        Raises e \<Rightarrow> (Some e, facts, [], 1)
      | Response status_code body \<Rightarrow>
          if status_code = 200 then
            (case body of
               Inl e \<Rightarrow> (Some e, facts, [], 1)
             | Inr data \<Rightarrow>
                (case dict_get data ''fact'' JNull of
                   Inl e \<Rightarrow> (Some e, facts, [], 1)
                 | Inr fact' \<Rightarrow>
                     if truthy fact' then
                       after_request [(INFO, RetrievedFact (i + 1))]
                         (fetch_loop net (Suc i) k (facts @ [fact']))
                     else
                       after_request [(WARNING, NoFactFound (i + 1))]
                         (fetch_loop net (Suc i) k facts)))
          else
            after_request [(ERROR, RequestFailedStatus (i + 1) status_code)]
              (fetch_loop net (Suc i) k facts))"

text \<open>
  The \<^verbatim>\<open>except\<close> clauses around the loop, in their order; HTTPError is a
  RequestException.
\<close>

fun cat_handler :: "exn \<Rightarrow> level \<times> cat_msg" where
  "cat_handler Timeout = (ERROR, RequestTimedOut)"
| "cat_handler ConnectionError = (ERROR, ConnectionErrorOccurred)"
| "cat_handler HTTPError = (ERROR, RequestErrorOccurred HTTPError)"
| "cat_handler RequestException = (ERROR, RequestErrorOccurred RequestException)"
| "cat_handler e = (ERROR, UnexpectedError e)"

text \<open>
  The exception one pass of that loop raises, if any, given what its request does: the
  request itself, \<^verbatim>\<open>response.json()\<close> or \<^verbatim>\<open>data.get\<close>, the last two on status 200
  only.
\<close>

fun pass_raises :: "http \<Rightarrow> exn option" where
  "pass_raises (Raises e) = Some e"
| "pass_raises (Response status_code body) =
     (if status_code = 200 then
        (case body of
           Inl e \<Rightarrow> Some e
         | Inr data \<Rightarrow> (case dict_get data ''fact'' JNull of Inl e \<Rightarrow> Some e | Inr v \<Rightarrow> None))
      else None)"

text \<open>
  The fact one pass of that loop appends to \<open>facts\<close>, if any: the \<^verbatim>\<open>fact\<close> entry of a
  status-200 body, when it is truthy.
\<close>

fun pass_fact :: "http \<Rightarrow> json option" where
  "pass_fact (Raises e) = None"
| "pass_fact (Response status_code body) =
     (if status_code = 200 then
        (case body of
           Inl e \<Rightarrow> None
         | Inr data \<Rightarrow>
            (case dict_get data ''fact'' JNull of
               Inl e \<Rightarrow> None
             | Inr v \<Rightarrow> if truthy v then Some v else None))
      else None)"

text \<open>The facts that the passes \<open>i, ..., i + j - 1\<close> append, in order.\<close>

definition gathered :: "(nat \<Rightarrow> http) \<Rightarrow> nat \<Rightarrow> nat \<Rightarrow> json list" where
  "gathered net i j = List.map_filter (\<lambda>m. pass_fact (net m)) [i..<i + j]"

text \<open>
  \<^verbatim>\<open>get_cat_facts\<close>: the facts returned, the log, and the number of requests made (an
  observation of the run, not a value of the Python function).
\<close>

definition get_cat_facts :: "(nat \<Rightarrow> http) \<Rightarrow> int \<Rightarrow> json list \<times> clog \<times> nat" where
  "get_cat_facts net num_facts =
     (case fetch_loop net 0 (nat num_facts) [] of
        (r, facts, l, n) \<Rightarrow>
          (facts,
           [(INFO, StartingFetch num_facts)] @ l @
           (case r of None \<Rightarrow> [] | Some e \<Rightarrow> [cat_handler e]) @
           [(INFO, RetrievedTotal (length facts) num_facts)],
           n))"



section \<open>The holidays script (src/assignment-scripts/holidays.py)\<close>

datatype hol_msg =
    FetchingHolidays string int
  | RetrievedHolidays nat string
  | RequestTimeout string
  | ConnectionErrorFor string
  | HTTPErrorFor string
  | RequestFailedFor string exn
  | UnexpectedErrorFor string exn
  | NoHolidaysToDisplay string
  | SavedSummary
  | SaveSummaryFailed exn

type_synonym hlog = "(level \<times> hol_msg) list"

text \<open>\<^verbatim>\<open>len(x)\<close>.\<close>

fun py_len :: "json \<Rightarrow> exn + nat" where
  "py_len (JArr xs) = Inr (length xs)"
| "py_len (JStr s) = Inr (length s)"
| "py_len (JObj d) = Inr (length d)"
| "py_len _ = Inl TypeError"

text \<open>The \<^verbatim>\<open>except\<close> clauses of \<^verbatim>\<open>get_public_holidays\<close>, in their order.\<close>

fun holiday_handler :: "string \<Rightarrow> exn \<Rightarrow> level \<times> hol_msg" where
  "holiday_handler c Timeout = (ERROR, RequestTimeout c)"
| "holiday_handler c ConnectionError = (ERROR, ConnectionErrorFor c)"
| "holiday_handler c HTTPError = (ERROR, HTTPErrorFor c)"
| "holiday_handler c RequestException = (ERROR, RequestFailedFor c RequestException)"
| "holiday_handler c e = (ERROR, UnexpectedErrorFor c e)"

text \<open>
  \<^verbatim>\<open>get_public_holidays\<close>, given what its \<^verbatim>\<open>requests.get\<close> does;
  \<^verbatim>\<open>raise_for_status\<close> raises HTTPError on a status from 400 to 599. \<open>JNull\<close> is the
  \<^verbatim>\<open>None\<close> every handler returns.
\<close>

definition get_public_holidays :: "http \<Rightarrow> string \<Rightarrow> int \<Rightarrow> json \<times> hlog" where
  "get_public_holidays h country_code year =
     (let l0 = [(INFO, FetchingHolidays country_code year)]
      in case h of
           Raises e \<Rightarrow> (JNull, l0 @ [holiday_handler country_code e])
         | Response status_code body \<Rightarrow>
             if 400 \<le> status_code \<and> status_code < 600 then
               (JNull, l0 @ [holiday_handler country_code HTTPError])
             else
               (case body of
                  Inl e \<Rightarrow> (JNull, l0 @ [holiday_handler country_code e])
                | Inr holidays \<Rightarrow>
                   (case py_len holidays of
                      Inl e \<Rightarrow> (JNull, l0 @ [holiday_handler country_code e])
                    | Inr n \<Rightarrow> (holidays, l0 @ [(INFO, RetrievedHolidays n country_code)]))))"

text \<open>\<^verbatim>\<open>for x in v\<close>: the elements of a list, the characters of a str, the keys of a dict.\<close>

fun py_iter :: "json \<Rightarrow> exn + json list" where
  "py_iter (JArr xs) = Inr xs"
| "py_iter (JStr s) = Inr (map (\<lambda>c. JStr [c]) s)"
| "py_iter (JObj d) = Inr (map (\<lambda>kv. JStr (fst kv)) d)"
| "py_iter _ = Inl TypeError"

text \<open>
  \<^verbatim>\<open>print_holiday_details\<close>: what it prints is left out, the exceptions of its two
  \<^verbatim>\<open>holiday.get\<close> calls are not. Nothing in the script catches them.
\<close>

fun print_each :: "json list \<Rightarrow> exn + unit" where
  "print_each [] = Inr ()"
| "print_each (holiday # rest) =
     (case dict_get holiday ''name'' (JStr ''Unknown'') of
        Inl e \<Rightarrow> Inl e
      | Inr name \<Rightarrow>
         (case dict_get holiday ''date'' (JStr ''Unknown'') of
            Inl e \<Rightarrow> Inl e
          | Inr date \<Rightarrow> print_each rest))"

definition print_holiday_details :: "json \<Rightarrow> string \<Rightarrow> (exn + unit) \<times> hlog" where
  "print_holiday_details holidays country_code =
     (if \<not> truthy holidays then (Inr (), [(WARNING, NoHolidaysToDisplay country_code)])
      else
        (case py_iter holidays of
           Inl e \<Rightarrow> (Inl e, [])
         | Inr items \<Rightarrow> (print_each items, [])))"

text \<open>\<^verbatim>\<open>d[k] = v\<close> on a dict of counts.\<close>

fun dict_set :: "(string \<times> int) list \<Rightarrow> string \<Rightarrow> int \<Rightarrow> (string \<times> int) list" where
  "dict_set [] k v = [(k, v)]"
| "dict_set ((k', v') # rest) k v = (if k' = k then (k, v) # rest else (k', v') # dict_set rest k v)"





text \<open>
  The \<^verbatim>\<open>for country in countries\<close> loop at module level; \<open>net country\<close> is what the
  request for that country does. The result carries the countries requested.
\<close>

fun holiday_loop ::
  "(string \<Rightarrow> http) \<Rightarrow> string list \<Rightarrow> (string \<times> int) list \<Rightarrow>
     (exn + unit) \<times> (string \<times> int) list \<times> hlog \<times> string list" where
  "holiday_loop net [] countries_summary = (Inr (), countries_summary, [], [])"
| "holiday_loop net (country # rest) countries_summary =
     (case get_public_holidays (net country) country 2024 of
        (holidays, l) \<Rightarrow>
          if truthy holidays then
            (case py_len holidays of
               Inl e \<Rightarrow> (Inl e, countries_summary, l, [country])
             | Inr n \<Rightarrow>
                (let summary' = dict_set countries_summary country (int n)
                 in case print_holiday_details holidays country of
                      (Inl e, l') \<Rightarrow> (Inl e, summary', l @ l', [country])
                    | (Inr u, l') \<Rightarrow>
                       (case holiday_loop net rest summary' of
                          (r, summary'', l'', requested) \<Rightarrow>
                            (r, summary'', l @ l' @ l'', country # requested))))
          else
            (case holiday_loop net rest (dict_set countries_summary country 0) of
               (r, summary'', l'', requested) \<Rightarrow> (r, summary'', l @ l'', country # requested)))"


section \<open>The success rate of the glossary\<close>

text \<open>
  The glossary's success rate taken literally: the quotient of the two counters, which
  Python leaves undefined (ZeroDivisionError) for a zero divisor.
\<close>

definition spec_success_rate :: "agent \<Rightarrow> exn + real" where
  "spec_success_rate s = py_truediv (successful_requests s) (total_requests s)"

section \<open>Sample inputs\<close>

text \<open>Concrete inputs on which the theorems below are exercised.\<close>

definition sample_market :: json where
  "sample_market =
     JObj [(''ticker'', JStr ''KX-1''), (''title'', JStr ''Rain tomorrow''),
           (''category'', JStr ''Weather''), (''status'', JStr ''open''),
           (''last_price'', JInt 55), (''volume'', JInt 120)]"

definition sample_record :: pydict where
  "sample_record =
     [(''ticker'', JStr ''KX-1''), (''title'', JStr ''Rain tomorrow''),
      (''category'', JStr ''Weather''), (''status'', JStr ''open''),
      (''last_price'', JInt 55), (''volume'', JInt 120),
      (''collection_timestamp'', JStr ''2024-05-01T10:00:00'')]"

definition sample_tick :: tick where
  "sample_tick =
     \<lparr> t_http = Response 200 (Inr (JObj [(''markets'', JArr [sample_market])])),
       t_now = ''2024-05-01T10:00:00'',
       t_jitter = 1.0,
       t_sleep_max = 9223372036 \<rparr>"

text \<open>An agent whose config file asks for one market.\<close>

definition one_market_agent :: agent where
  "one_market_agent = agent_init (Some (Some (JObj [(''num_markets'', JInt 1)]))) 0"

text \<open>An agent with one success in four requests.\<close>

definition struggling_agent :: agent where
  "struggling_agent = (agent_init None 0)\<lparr>total_requests := 4, successful_requests := 1, failed_requests := 3\<rparr>"

text \<open>A network on which the first cat-fact request times out and every later one would succeed.\<close>

definition first_times_out :: "nat \<Rightarrow> http" where
  "first_times_out i =
     (if i = 0 then Raises Timeout else Response 200 (Inr (JObj [(''fact'', JStr ''Cats purr.'')])))"

text \<open>A network that answers every cat-fact request, and one that answers every holiday request.\<close>

definition always_fact :: "nat \<Rightarrow> http" where
  "always_fact i = Response 200 (Inr (JObj [(''fact'', JStr ''Cats purr.'')]))"

definition one_holiday :: "string \<Rightarrow> http" where
  "one_holiday country =
     Response 200 (Inr (JArr [JObj [(''date'', JStr ''2024-01-01''), (''name'', JStr ''New Year'')]]))"

text \<open>A network on which the second cat-fact request times out.\<close>

definition second_times_out :: "nat \<Rightarrow> http" where
  "second_times_out i =
     (if i = 1 then Raises Timeout else Response 200 (Inr (JObj [(''fact'', JStr ''Cats purr.'')])))"

text \<open>A holiday network on which the request for the US cannot connect.\<close>

definition us_down :: "string \<Rightarrow> http" where
  "us_down country = (if country = ''US'' then Raises ConnectionError else one_holiday country)"

text \<open>An agent whose config file gives a delay that is not a number.\<close>

definition unusable_delay_agent :: agent where
  "unusable_delay_agent = agent_init (Some (Some (JObj [(''base_delay'', JStr ''slow'')]))) 0"

text \<open>A pass of the agent's loop whose request times out.\<close>

definition timeout_tick :: tick where
  "timeout_tick =
     \<lparr> t_http = Raises Timeout, t_now = ''2024-05-01T10:00:00'', t_jitter = 1.0,
       t_sleep_max = 9223372036 \<rparr>"




section \<open>Facts about the agent's methods\<close>

lemma make_api_request_multiplier:
  "delay_multiplier (fst (snd (make_api_request h s))) = delay_multiplier s"
  by (simp add: make_api_request_def request_error_def Let_def split: sum.splits http.splits)

lemma make_api_request_store:
  "data_store (fst (snd (make_api_request h s))) = data_store s"
  by (simp add: make_api_request_def request_error_def Let_def split: sum.splits http.splits)

lemma make_api_request_config:
  "config (fst (snd (make_api_request h s))) = config s"
  by (simp add: make_api_request_def request_error_def Let_def split: sum.splits http.splits)

lemma make_api_request_no_high:
  "(INFO, HighSuccessRate x) \<notin> set (snd (snd (make_api_request h s)))"
  by (simp add: make_api_request_def request_error_def Let_def split: sum.splits http.splits)

lemma collect_batch_state:
  "fst (snd (collect_batch h s)) =
     fst (snd (make_api_request h (if get_success_rate s < 0.8 then fst (adjust_strategy s) else s)))"
  by (simp add: collect_batch_def split_beta)

lemma collect_batch_multiplier_eq:
  "delay_multiplier (fst (snd (collect_batch h s))) =
     (if get_success_rate s < 0.5 then delay_multiplier s * 2 else delay_multiplier s)"
  by (simp add: collect_batch_state make_api_request_multiplier adjust_strategy_def Let_def)

lemma process_and_store_multiplier:
  "delay_multiplier (fst (snd (process_and_store now d s))) = delay_multiplier s"
  by (simp add: process_and_store_def Let_def split: sum.splits)

lemma process_and_store_config:
  "config (fst (snd (process_and_store now d s))) = config s"
  by (simp add: process_and_store_def Let_def split: sum.splits)

lemma loop_body_state:
  "fst (snd (loop_body tk s)) =
     (if truthy (fst (collect_batch (t_http tk) s))
      then fst (snd (process_and_store (t_now tk) (fst (collect_batch (t_http tk) s))
                       (fst (snd (collect_batch (t_http tk) s)))))
      else fst (snd (collect_batch (t_http tk) s)))"
  by (simp add: loop_body_def split_beta split: sum.splits)

lemma loop_body_multiplier:
  "delay_multiplier (fst (snd (loop_body tk s))) =
     (if get_success_rate s < 0.5 then delay_multiplier s * 2 else delay_multiplier s)"
  by (simp add: loop_body_state process_and_store_multiplier collect_batch_multiplier_eq)

text \<open>
  What every pass of the loop preserves holds of the state in which the loop ends: by
  induction on the passes.
\<close>

lemma collection_loop_invariant:
  assumes step: "\<And>tk s. P s \<Longrightarrow> P (fst (snd (loop_body tk s)))"
  shows "P s \<Longrightarrow> collection_loop ticks s = Some (r, s', l) \<Longrightarrow> P s'"
proof (induction ticks arbitrary: s r s' l)
  case Nil
  then show ?case by (auto split: sum.splits if_splits)
next
  case (Cons tk ticks)
  obtain r1 s1 l1 where body: "loop_body tk s = (r1, s1, l1)"
    by (cases "loop_body tk s") auto
  with step [OF Cons.prems(1), of tk] have p1: "P s1" by simp
  show ?case
  proof (cases "collection_complete s")
    case (Inl e)
    with Cons.prems show ?thesis by simp
  next
    case (Inr finished)
    show ?thesis
    proof (cases "finished \<or> isl r1")
      case True
      with Inr body Cons.prems p1 show ?thesis by (cases r1) (auto split: if_splits)
    next
      case False
      with Inr body Cons.prems(2) obtain l' where "collection_loop ticks s1 = Some (r, s', l')"
        by (cases r1) (auto split: option.splits)
      from Cons.IH [OF p1 this] show ?thesis .
    qed
  qed
qed

lemma collect_batch_store: "data_store (fst (snd (collect_batch h s))) = data_store s"
  by (simp add: collect_batch_state make_api_request_store adjust_strategy_def Let_def)

lemma process_and_store_valid:
  "list_all validate_data (data_store s) \<Longrightarrow>
   list_all validate_data (data_store (fst (snd (process_and_store now d s))))"
  by (simp add: process_and_store_def Let_def split: sum.splits)

lemma loop_body_store_valid:
  "list_all validate_data (data_store s) \<Longrightarrow>
   list_all validate_data (data_store (fst (snd (loop_body tk s))))"
  by (simp add: loop_body_state process_and_store_valid collect_batch_store)

lemma collection_loop_store_valid:
  "list_all validate_data (data_store s) \<Longrightarrow> collection_loop ticks s = Some (r, s', l) \<Longrightarrow>
   list_all validate_data (data_store s')"
  using collection_loop_invariant [where P = "\<lambda>s. list_all validate_data (data_store s)"]
        loop_body_store_valid
  by blast

text \<open>
  A run of the loop that ends leaves the multiplier at least where it started, when it
  started at 1 or more: each pass doubles it or keeps it.
\<close>

lemma collection_loop_multiplier:
  assumes "1 \<le> delay_multiplier s" and "collection_loop ticks s = Some (r, s', l)"
  shows "delay_multiplier s \<le> delay_multiplier s'"
proof -
  let ?P = "\<lambda>t. delay_multiplier s \<le> delay_multiplier t"
  have "\<And>tk t. ?P t \<Longrightarrow> ?P (fst (snd (loop_body tk t)))"
    using assms(1) by (simp add: loop_body_multiplier)
  from collection_loop_invariant [where P = ?P, OF this _ assms(2)] show ?thesis by simp
qed

lemma make_api_request_counters:
  "total_requests (fst (snd (make_api_request h s))) = total_requests s + 1 \<and>
   successful_requests s \<le> successful_requests (fst (snd (make_api_request h s))) \<and>
   failed_requests s \<le> failed_requests (fst (snd (make_api_request h s)))"
  by (simp add: make_api_request_def request_error_def Let_def split: sum.splits http.splits)

lemma num_val_py_add: "num_val (py_add a b) = num_val a + num_val b"
  by (cases a; cases b) simp_all

lemma validate_fields_all:
  "validate_fields d fs =
     (\<forall>f \<in> set fs. case map_of d f of None \<Rightarrow> False | Some v \<Rightarrow> truthy v \<and> v \<noteq> JStr ''N/A'')"
  by (induction fs) (auto simp: get_or_def split: option.splits)

subsection \<open>The sample run\<close>

lemma sample_processed: "process_data ''2024-05-01T10:00:00'' sample_market = Inr sample_record"
  by (simp add: sample_market_def sample_record_def get_or_def)

lemma sample_valid: "validate_data sample_record"
  by (simp add: sample_record_def validate_data_def get_or_def)

lemma one_market_loop:
  "collection_loop [sample_tick] one_market_agent =
     Some (Inr (),
           one_market_agent\<lparr>data_store := [sample_record], total_requests := 1, successful_requests := 1\<rparr>,
           [(INFO, StoredDataPoint 1 (JInt 1)), (INFO, Performance 1 1)])"
  apply (simp add: one_market_agent_def agent_init_def load_config_def collection_complete_def get_or_def
      loop_body_def collect_batch_def get_success_rate_def make_api_request_def sample_tick_def
      process_and_store_def sample_processed sample_valid)
  apply (simp add: assess_performance_def assess_data_quality_def quality_metrics_def
      check_completeness_def check_accuracy_def check_consistency_def py_sum_def num_truediv_def
      sample_record_def sample_market_def get_or_def respectful_delay_def time_sleep_def
      get_success_rate_def collection_complete_def)
  done

subsection \<open>The cat-facts loop, totality, files\<close>

lemma fetch_loop_raise:
  "pass_raises (net i) = Some e \<Longrightarrow> fetch_loop net i (Suc k) facts = (Some e, facts, [], 1)"
  by (cases "net i") (auto split: if_splits sum.splits)

lemma fetch_loop_pass:
  "pass_raises (net i) = None \<Longrightarrow>
   \<exists>l. fetch_loop net i (Suc k) facts =
         after_request l
           (fetch_loop net (Suc i) k (facts @ (case pass_fact (net i) of None \<Rightarrow> [] | Some v \<Rightarrow> [v])))"
  by (cases "net i") (auto split: if_splits sum.splits)

lemma gathered_0: "gathered net i 0 = []"
  by (simp add: gathered_def List.map_filter_simps)

lemma gathered_Suc:
  "gathered net i (Suc j) =
     (case pass_fact (net i) of None \<Rightarrow> [] | Some v \<Rightarrow> [v]) @ gathered net (Suc i) j"
proof -
  have "[i..<i + Suc j] = i # [Suc i..<Suc i + j]"
    by (simp add: upt_conv_Cons)
  then show ?thesis
    by (simp add: gathered_def List.map_filter_simps split: option.splits)
qed

text \<open>
  The loop stops at the first pass that raises: it has made the requests up to that one
  and holds the facts of the passes before it.
\<close>

lemma fetch_loop_stops:
  "j < k \<Longrightarrow> pass_raises (net (i + j)) = Some e \<Longrightarrow> (\<forall>m<j. pass_raises (net (i + m)) = None) \<Longrightarrow>
   fst (fetch_loop net i k facts) = Some e \<and>
   fst (snd (fetch_loop net i k facts)) = facts @ gathered net i j \<and>
   snd (snd (snd (fetch_loop net i k facts))) = Suc j"
proof (induction k arbitrary: i j facts)
  case 0
  then show ?case by simp
next
  case (Suc k)
  show ?case
  proof (cases j)
    case 0
    with Suc.prems show ?thesis by (simp add: fetch_loop_raise gathered_0 del: fetch_loop.simps)
  next
    case (Suc j')
    let ?facts' = "facts @ (case pass_fact (net i) of None \<Rightarrow> [] | Some v \<Rightarrow> [v])"
    from Suc Suc.prems have "pass_raises (net i) = None" by (metis add.right_neutral zero_less_Suc)
    then obtain l where
      step: "fetch_loop net i (Suc k) facts = after_request l (fetch_loop net (Suc i) k ?facts')"
      using fetch_loop_pass by blast
    have "j' < k" using Suc.prems(1) Suc by simp
    moreover have "pass_raises (net (Suc i + j')) = Some e" using Suc.prems(2) Suc by simp
    moreover have "\<forall>m<j'. pass_raises (net (Suc i + m)) = None"
    proof (intro allI impI)
      fix m assume "m < j'"
      then have "Suc m < j" using Suc by simp
      with Suc.prems(3) have "pass_raises (net (i + Suc m)) = None" by blast
      then show "pass_raises (net (Suc i + m)) = None" by simp
    qed
    ultimately have ih: "fst (fetch_loop net (Suc i) k ?facts') = Some e \<and>
        fst (snd (fetch_loop net (Suc i) k ?facts')) = ?facts' @ gathered net (Suc i) j' \<and>
        snd (snd (snd (fetch_loop net (Suc i) k ?facts'))) = Suc j'"
      by (rule Suc.IH)
    with step Suc show ?thesis
      by (simp add: after_request_def split_beta gathered_Suc del: fetch_loop.simps)
  qed
qed

text \<open>When no pass raises, the loop makes all its requests and holds the facts of all passes.\<close>

lemma fetch_loop_completes:
  "(\<forall>m<k. pass_raises (net (i + m)) = None) \<Longrightarrow>
   fst (fetch_loop net i k facts) = None \<and>
   fst (snd (fetch_loop net i k facts)) = facts @ gathered net i k \<and>
   snd (snd (snd (fetch_loop net i k facts))) = k"
proof (induction k arbitrary: i facts)
  case 0
  then show ?case by (simp add: gathered_0)
next
  case (Suc k)
  let ?facts' = "facts @ (case pass_fact (net i) of None \<Rightarrow> [] | Some v \<Rightarrow> [v])"
  from Suc.prems have "pass_raises (net i) = None" by (metis add.right_neutral zero_less_Suc)
  then obtain l where
    step: "fetch_loop net i (Suc k) facts = after_request l (fetch_loop net (Suc i) k ?facts')"
    using fetch_loop_pass by blast
  have "\<forall>m<k. pass_raises (net (Suc i + m)) = None"
  proof (intro allI impI)
    fix m assume "m < k"
    then have "Suc m < Suc k" by simp
    with Suc.prems have "pass_raises (net (i + Suc m)) = None" by blast
    then show "pass_raises (net (Suc i + m)) = None" by simp
  qed
  then have "fst (fetch_loop net (Suc i) k ?facts') = None \<and>
      fst (snd (fetch_loop net (Suc i) k ?facts')) = ?facts' @ gathered net (Suc i) k \<and>
      snd (snd (snd (fetch_loop net (Suc i) k ?facts'))) = k"
    by (rule Suc.IH)
  with step show ?case
    by (simp add: after_request_def split_beta gathered_Suc del: fetch_loop.simps)
qed

lemma get_cat_facts_requests:
  "snd (snd (get_cat_facts net n)) = snd (snd (snd (fetch_loop net 0 (nat n) [])))"
  by (simp add: get_cat_facts_def split_beta)

lemma get_cat_facts_facts:
  "fst (get_cat_facts net n) = fst (snd (fetch_loop net 0 (nat n) []))"
  by (simp add: get_cat_facts_def split_beta)

lemma get_cat_facts_handler:
  "fst (fetch_loop net 0 (nat n) []) = Some e \<Longrightarrow> cat_handler e \<in> set (fst (snd (get_cat_facts net n)))"
  by (simp add: get_cat_facts_def split_beta)

lemma assess_data_quality_total: "\<exists>q. assess_data_quality s = Inr q"
  by (simp add: assess_data_quality_def quality_metrics_def num_truediv_def)

lemma assess_performance_total: "fst (assess_performance s) = Inr ()"
  using assess_data_quality_total [of s] by (auto simp: assess_performance_def)



lemma write_all_result: "fst (write_all fs xs) = (if list_all fs (map fst xs) then Inr () else Inl OSError)"
  by (induction xs) (auto simp: split_beta)


subsection \<open>The report files\<close>








subsection \<open>Passes that bring a valid market\<close>








subsection \<open>Requests that raise\<close>

lemma make_api_request_raise:
  "fst (make_api_request (Raises e) s) = JNull \<and>
   (\<exists>e'. snd (snd (make_api_request (Raises e) s)) = [(ERROR, RequestError e')])"
  by (simp add: make_api_request_def request_error_def Let_def split: sum.splits)

lemma make_api_request_raise_dict:
  "config s = JObj c \<Longrightarrow>
   make_api_request (Raises e) s =
     (JNull, s\<lparr>total_requests := total_requests s + 1, failed_requests := failed_requests s + 1\<rparr>,
      [(ERROR, RequestError e)])"
  by (simp add: make_api_request_def request_error_def Let_def)

lemma collect_batch_raise: "fst (collect_batch (Raises e) s) = JNull"
  by (simp add: collect_batch_def split_beta make_api_request_raise)

lemma collect_batch_raise_logged:
  "\<exists>e'. (ERROR, RequestError e') \<in> set (snd (snd (collect_batch (Raises e) s)))"
proof -
  let ?s' = "if get_success_rate s < 0.8 then fst (adjust_strategy s) else s"
  obtain e' where m: "snd (snd (make_api_request (Raises e) ?s')) = [(ERROR, RequestError e')]"
    using make_api_request_raise by blast
  have "snd (snd (collect_batch (Raises e) s)) =
          (if get_success_rate s < 0.8 then snd (adjust_strategy s) else []) @
          snd (snd (make_api_request (Raises e) ?s'))"
    by (simp add: collect_batch_def split_beta)
  with m have "(ERROR, RequestError e') \<in> set (snd (snd (collect_batch (Raises e) s)))"
    by simp
  then show ?thesis by blast
qed

lemma loop_body_raise:
  assumes "t_http tk = Raises e"
  shows "fst (snd (loop_body tk s)) = fst (snd (collect_batch (Raises e) s))"
    and "fst (loop_body tk s) =
           (case respectful_delay (t_sleep_max tk) (t_jitter tk) (fst (snd (collect_batch (Raises e) s))) of
              Inl e' \<Rightarrow> Inl e' | Inr d \<Rightarrow> Inr ())"
    and "set (snd (snd (collect_batch (Raises e) s))) \<subseteq> set (snd (snd (loop_body tk s)))"
proof -
  obtain d s1 l1 where c: "collect_batch (Raises e) s = (d, s1, l1)"
    by (cases "collect_batch (Raises e) s") auto
  with collect_batch_raise [of e s] have d: "d = JNull" by simp
  obtain l3 where a: "assess_performance s1 = (Inr (), l3)"
    using assess_performance_total [of s1] by (cases "assess_performance s1") auto
  show "fst (snd (loop_body tk s)) = fst (snd (collect_batch (Raises e) s))"
    by (simp add: loop_body_def assms c d a split: sum.splits)
  show "fst (loop_body tk s) =
           (case respectful_delay (t_sleep_max tk) (t_jitter tk) (fst (snd (collect_batch (Raises e) s))) of
              Inl e' \<Rightarrow> Inl e' | Inr d \<Rightarrow> Inr ())"
    by (simp add: loop_body_def assms c d a split: sum.splits)
  show "set (snd (snd (collect_batch (Raises e) s))) \<subseteq> set (snd (snd (loop_body tk s)))"
    by (simp add: loop_body_def assms c d a split: sum.splits)
qed

text \<open>
  A pass whose request raises ends the loop only through its delay: when the delay
  returns, the loop goes on with the passes that remain.
\<close>

lemma collection_loop_raise:
  assumes "t_http tk = Raises e" and "collection_complete s = Inr False"
  shows "collection_loop (tk # ticks) s =
     (case respectful_delay (t_sleep_max tk) (t_jitter tk) (fst (snd (loop_body tk s))) of
        Inl e' \<Rightarrow> Some (Inl e', fst (snd (loop_body tk s)), snd (snd (loop_body tk s)))
      | Inr d \<Rightarrow>
         (case collection_loop ticks (fst (snd (loop_body tk s))) of
            None \<Rightarrow> None
          | Some (r, s2, l2) \<Rightarrow> Some (r, s2, snd (snd (loop_body tk s)) @ l2)))"
proof -
  obtain r1 s1 l1 where body: "loop_body tk s = (r1, s1, l1)"
    by (cases "loop_body tk s") auto
  have s1: "s1 = fst (snd (collect_batch (Raises e) s))"
    using loop_body_raise(1) [OF assms(1), of s] body by simp
  have r1: "r1 = (case respectful_delay (t_sleep_max tk) (t_jitter tk) s1 of
              Inl e' \<Rightarrow> Inl e' | Inr d \<Rightarrow> Inr ())"
    using loop_body_raise(2) [OF assms(1), of s] body s1 by simp
  show ?thesis
    by (cases "respectful_delay (t_sleep_max tk) (t_jitter tk) s1")
       (simp_all add: assms(2) body r1 split: option.splits)
qed

lemma get_public_holidays_raise:
  "get_public_holidays (Raises e) c y = (JNull, [(INFO, FetchingHolidays c y), holiday_handler c e])"
  by (simp add: get_public_holidays_def)

lemma holiday_loop_raise:
  "hnet c = Raises e \<Longrightarrow>
   holiday_loop hnet (c # rest) cs =
     (case holiday_loop hnet rest (dict_set cs c 0) of
        (r, cs', l', requested) \<Rightarrow>
          (r, cs', [(INFO, FetchingHolidays c 2024), holiday_handler c e] @ l', c # requested))"
  by (simp add: get_public_holidays_raise)

lemma timeout_pass:
  "loop_body timeout_tick one_market_agent =
     (Inr (), one_market_agent\<lparr>total_requests := 1, failed_requests := 1\<rparr>,
      [(ERROR, RequestError Timeout), (INFO, Performance 0 0)])"
  by (simp add: loop_body_def timeout_tick_def one_market_agent_def agent_init_def load_config_def
        collect_batch_def get_success_rate_def make_api_request_def request_error_def get_or_def
        assess_performance_def assess_data_quality_def respectful_delay_def time_sleep_def)

lemma timeout_pass_unusable_delay:
  "loop_body timeout_tick unusable_delay_agent =
     (Inl TypeError, unusable_delay_agent\<lparr>total_requests := 1, failed_requests := 1\<rparr>,
      [(ERROR, RequestError Timeout), (INFO, Performance 0 0)])"
  by (simp add: loop_body_def timeout_tick_def unusable_delay_agent_def agent_init_def load_config_def
        collect_batch_def get_success_rate_def make_api_request_def request_error_def get_or_def
        assess_performance_def assess_data_quality_def respectful_delay_def time_sleep_def)

lemma after_timeout_loop:
  "collection_loop [sample_tick] (one_market_agent\<lparr>total_requests := 1, failed_requests := 1\<rparr>) =
     Some (Inr (),
           one_market_agent\<lparr>total_requests := 2, failed_requests := 1, delay_multiplier := 2,
             successful_requests := 1, data_store := [sample_record]\<rparr>,
           [(WARNING, LowSuccessRate 2), (INFO, StoredDataPoint 1 (JInt 1)),
            (INFO, Performance 1 (1 / 2))])"
  apply (simp add: one_market_agent_def agent_init_def load_config_def collection_complete_def get_or_def
      loop_body_def collect_batch_def get_success_rate_def adjust_strategy_def make_api_request_def
      sample_tick_def process_and_store_def sample_processed sample_valid)
  apply (simp add: assess_performance_def assess_data_quality_def quality_metrics_def
      check_completeness_def check_accuracy_def check_consistency_def py_sum_def num_truediv_def
      sample_record_def sample_market_def get_or_def respectful_delay_def time_sleep_def
      get_success_rate_def collection_complete_def)
  done

subsection \<open>The sample networks\<close>



section \<open>Delay adjustment\<close>

text \<open>
  C1. For every agent state, \<open>adjust_strategy\<close> doubles the delay multiplier when the
  success rate is below 0.5, multiplies it by 0.8 when the success rate is above 0.9 and
  leaves it alone otherwise; the state it returns differs from the given one in the
  multiplier only.
\<close>

theorem adjust_strategy_multiplier:
  "fst (adjust_strategy s) =
     s\<lparr>delay_multiplier :=
         (if get_success_rate s < 0.5 then delay_multiplier s * 2
          else if get_success_rate s > 0.9 then delay_multiplier s * 0.8
          else delay_multiplier s)\<rparr>"
  by (simp add: adjust_strategy_def Let_def)

text \<open>
  One success in four doubles the multiplier, no request yet (rate 1.0) scales it by 0.8,
  three successes in four leave it.
\<close>

theorem adjust_strategy_multiplier_witness:
  "fst (adjust_strategy struggling_agent) = struggling_agent\<lparr>delay_multiplier := 2\<rparr> \<and>
   fst (adjust_strategy (agent_init None 0)) = (agent_init None 0)\<lparr>delay_multiplier := 0.8\<rparr> \<and>
   fst (adjust_strategy (struggling_agent\<lparr>successful_requests := 3\<rparr>)) =
     struggling_agent\<lparr>successful_requests := 3\<rparr>"
  using adjust_strategy_multiplier [of struggling_agent]
        adjust_strategy_multiplier [of "agent_init None 0"]
        adjust_strategy_multiplier [of "struggling_agent\<lparr>successful_requests := 3\<rparr>"]
  by (simp add: struggling_agent_def agent_init_def get_success_rate_def)

text \<open>
  C9. In the collection flow the multiplier never decreases. A new agent has multiplier
  1.0. \<open>collect_batch\<close> calls \<open>adjust_strategy\<close> only below a success rate of 0.8, so it
  doubles the multiplier (rate below 0.5) or keeps it, and never logs the record of the
  multiply-by-0.8 branch. Hence a multiplier of at least 1.0 is not lowered by one
  \<open>collect_batch\<close>, nor by a whole run of the loop.
\<close>

theorem collect_batch_multiplier_monotone:
  "delay_multiplier (agent_init config_file now) = 1.0 \<and>
   delay_multiplier (fst (snd (collect_batch h s))) =
     (if get_success_rate s < 0.5 then delay_multiplier s * 2 else delay_multiplier s) \<and>
   (\<forall>x. (INFO, HighSuccessRate x) \<notin> set (snd (snd (collect_batch h s)))) \<and>
   (1.0 \<le> delay_multiplier s \<longrightarrow>
      delay_multiplier s \<le> delay_multiplier (fst (snd (collect_batch h s))) \<and>
      1.0 \<le> delay_multiplier (fst (snd (collect_batch h s)))) \<and>
   (1.0 \<le> delay_multiplier s \<and> collection_loop ticks s = Some (r, s', l) \<longrightarrow>
      delay_multiplier s \<le> delay_multiplier s' \<and> 1.0 \<le> delay_multiplier s')"
proof -
  have init: "delay_multiplier (agent_init config_file now) = 1.0"
    by (simp add: agent_init_def)
  have nohigh: "\<forall>x. (INFO, HighSuccessRate x) \<notin> set (snd (snd (collect_batch h s)))"
    using make_api_request_no_high
    by (simp add: collect_batch_def split_beta adjust_strategy_def Let_def)
  have step: "1.0 \<le> delay_multiplier s \<longrightarrow>
      delay_multiplier s \<le> delay_multiplier (fst (snd (collect_batch h s))) \<and>
      1.0 \<le> delay_multiplier (fst (snd (collect_batch h s)))"
    by (simp add: collect_batch_multiplier_eq)
  have loop: "1.0 \<le> delay_multiplier s \<and> collection_loop ticks s = Some (r, s', l) \<longrightarrow>
      delay_multiplier s \<le> delay_multiplier s' \<and> 1.0 \<le> delay_multiplier s'"
    using collection_loop_multiplier [of s ticks r s' l] by auto
  from init collect_batch_multiplier_eq [of h s] nohigh step loop show ?thesis by blast
qed

theorem collect_batch_multiplier_monotone_witness:
  "1.0 \<le> delay_multiplier struggling_agent \<and>
   delay_multiplier (fst (snd (collect_batch (Raises Timeout) struggling_agent))) = 2 \<and>
   1.0 \<le> delay_multiplier one_market_agent \<and>
   collection_loop [sample_tick] one_market_agent =
     Some (Inr (),
           one_market_agent\<lparr>data_store := [sample_record], total_requests := 1, successful_requests := 1\<rparr>,
           [(INFO, StoredDataPoint 1 (JInt 1)), (INFO, Performance 1 1)]) \<and>
   1.0 \<le> delay_multiplier
     (one_market_agent\<lparr>data_store := [sample_record], total_requests := 1, successful_requests := 1\<rparr>)"
proof -
  have a: "1.0 \<le> delay_multiplier struggling_agent"
    by (simp add: struggling_agent_def agent_init_def)
  have b: "get_success_rate struggling_agent < 0.5"
    by (simp add: struggling_agent_def agent_init_def get_success_rate_def)
  have c: "delay_multiplier struggling_agent = 1"
    by (simp add: struggling_agent_def agent_init_def)
  have d: "1.0 \<le> delay_multiplier one_market_agent"
    by (simp add: one_market_agent_def agent_init_def)
  from a b c
    collect_batch_multiplier_monotone [of None 0 "Raises Timeout" struggling_agent "[]" "Inr ()" struggling_agent "[]"]
  have e: "delay_multiplier (fst (snd (collect_batch (Raises Timeout) struggling_agent))) = 2"
    by simp
  from d one_market_loop
    collect_batch_multiplier_monotone [of None 0 "Raises Timeout" one_market_agent "[sample_tick]" "Inr ()"
      "one_market_agent\<lparr>data_store := [sample_record], total_requests := 1, successful_requests := 1\<rparr>"
      "[(INFO, StoredDataPoint 1 (JInt 1)), (INFO, Performance 1 1)]"]
  have f: "1.0 \<le> delay_multiplier
     (one_market_agent\<lparr>data_store := [sample_record], total_requests := 1, successful_requests := 1\<rparr>)"
    by blast
  from a d e f one_market_loop show ?thesis by blast
qed

section \<open>Success rate and quality score\<close>

text \<open>
  C3, as stated: \<open>get_success_rate\<close> is the quotient of the two counters in every
  state, also when \<open>total_requests\<close> is 0. It is not: a new agent has made no request,
  the quotient 0 / 0 is undefined in Python (and 0 in HOL), and the method returns 1.0.
\<close>

theorem get_success_rate_zero_total_counterexample:
  "get_success_rate (agent_init None 0) \<noteq>
     real_of_int (successful_requests (agent_init None 0)) / real_of_int (total_requests (agent_init None 0))
   \<and> spec_success_rate (agent_init None 0) \<noteq> Inr (get_success_rate (agent_init None 0))"
  by (simp add: get_success_rate_def agent_init_def spec_success_rate_def py_truediv_def)

text \<open>
  C3, amended: \<open>get_success_rate\<close> is \<open>successful_requests / total_requests\<close> when
  \<open>total_requests\<close> is positive, and 1.0 when it is not.
\<close>

theorem get_success_rate_guarded:
  "(total_requests s > 0 \<longrightarrow>
      get_success_rate s = real_of_int (successful_requests s) / real_of_int (total_requests s) \<and>
      spec_success_rate s = Inr (get_success_rate s)) \<and>
   (\<not> total_requests s > 0 \<longrightarrow> get_success_rate s = 1.0)"
  by (simp add: get_success_rate_def spec_success_rate_def py_truediv_def)

theorem get_success_rate_guarded_witness:
  "total_requests struggling_agent > 0 \<and>
   get_success_rate struggling_agent = 1 / 4 \<and>
   \<not> total_requests (agent_init None 0) > 0 \<and>
   get_success_rate (agent_init None 0) = 1"
  using get_success_rate_guarded [of struggling_agent]
        get_success_rate_guarded [of "agent_init None 0"]
  by (simp add: agent_init_def struggling_agent_def)

text \<open>
  C4. On a non-empty data store \<open>assess_data_quality\<close> is the sum of the completeness,
  accuracy and consistency scores and the constant timeliness 1.0, divided by 4.
\<close>

theorem assess_data_quality_mean:
  "data_store s \<noteq> [] \<Longrightarrow>
   assess_data_quality s =
     Inr (PFloat ((num_val (check_completeness s) + num_val (check_accuracy s) +
                   num_val (check_consistency s) + 1.0) / 4))"
  by (simp add: assess_data_quality_def quality_metrics_def py_sum_def num_truediv_def num_val_py_add)

theorem assess_data_quality_mean_witness:
  "data_store (one_market_agent\<lparr>data_store := [sample_record]\<rparr>) \<noteq> [] \<and>
   assess_data_quality (one_market_agent\<lparr>data_store := [sample_record]\<rparr>) = Inr (PFloat 1)"
proof -
  have ne: "data_store (one_market_agent\<lparr>data_store := [sample_record]\<rparr>) \<noteq> []"
    by simp
  have "num_val (check_completeness (one_market_agent\<lparr>data_store := [sample_record]\<rparr>)) = 1"
       "num_val (check_accuracy (one_market_agent\<lparr>data_store := [sample_record]\<rparr>)) = 1"
       "num_val (check_consistency (one_market_agent\<lparr>data_store := [sample_record]\<rparr>)) = 1"
    by (simp_all add: check_completeness_def check_accuracy_def check_consistency_def
          sample_record_def get_or_def)
  with ne assess_data_quality_mean [OF ne] show ?thesis by simp
qed

section \<open>Processing and validation\<close>

text \<open>
  C6. For a raw response that is a mapping, \<open>process_data\<close> gives the record whose
  ticker and title default to 'N/A', category and status to 'Unknown', last_price and
  volume to 0 where the mapping has no such key, and carry the mapping's value where it
  has one.
\<close>

theorem process_data_defaults:
  "process_data now (JObj data) =
     Inr [(''ticker'', case map_of data ''ticker'' of None \<Rightarrow> JStr ''N/A'' | Some v \<Rightarrow> v),
          (''title'', case map_of data ''title'' of None \<Rightarrow> JStr ''N/A'' | Some v \<Rightarrow> v),
          (''category'', case map_of data ''category'' of None \<Rightarrow> JStr ''Unknown'' | Some v \<Rightarrow> v),
          (''status'', case map_of data ''status'' of None \<Rightarrow> JStr ''Unknown'' | Some v \<Rightarrow> v),
          (''last_price'', case map_of data ''last_price'' of None \<Rightarrow> JInt 0 | Some v \<Rightarrow> v),
          (''volume'', case map_of data ''volume'' of None \<Rightarrow> JInt 0 | Some v \<Rightarrow> v),
          (''collection_timestamp'', JStr now)]"
  by (simp add: get_or_def)

theorem process_data_defaults_witness:
  "process_data ''noon'' (JObj [(''ticker'', JStr ''KX-1''), (''volume'', JNull)]) =
     Inr [(''ticker'', JStr ''KX-1''), (''title'', JStr ''N/A''), (''category'', JStr ''Unknown''),
          (''status'', JStr ''Unknown''), (''last_price'', JInt 0), (''volume'', JNull),
          (''collection_timestamp'', JStr ''noon'')]"
  using process_data_defaults [of "''noon''" "[(''ticker'', JStr ''KX-1''), (''volume'', JNull)]"]
  by simp

text \<open>
  C5. \<open>validate_data\<close> holds exactly when each of ticker, title and category is present
  with a truthy value other than 'N/A'; \<open>process_and_store\<close> leaves the agent as it was
  when the processed record is rejected, and the data store grows by the processed
  record exactly when that record is accepted.
\<close>

theorem validate_data_required_fields:
  "(validate_data d \<longleftrightarrow>
      (\<forall>f \<in> set [''ticker'', ''title'', ''category''].
         case map_of d f of None \<Rightarrow> False | Some v \<Rightarrow> truthy v \<and> v \<noteq> JStr ''N/A'')) \<and>
   (process_data now data = Inr d \<and> \<not> validate_data d \<longrightarrow>
      process_and_store now data s = (Inr (), s, [])) \<and>
   data_store (fst (snd (process_and_store now data s))) =
     (case process_data now data of
        Inl e \<Rightarrow> data_store s
      | Inr p \<Rightarrow> if validate_data p then data_store s @ [p] else data_store s)"
  by (auto simp: validate_data_def validate_fields_all process_and_store_def Let_def
           split: sum.splits)

theorem validate_data_required_fields_witness:
  "process_data ''noon'' (JObj [(''ticker'', JStr ''KX-1'')]) =
     Inr [(''ticker'', JStr ''KX-1''), (''title'', JStr ''N/A''), (''category'', JStr ''Unknown''),
          (''status'', JStr ''Unknown''), (''last_price'', JInt 0), (''volume'', JInt 0),
          (''collection_timestamp'', JStr ''noon'')] \<and>
   \<not> validate_data
        [(''ticker'', JStr ''KX-1''), (''title'', JStr ''N/A''), (''category'', JStr ''Unknown''),
         (''status'', JStr ''Unknown''), (''last_price'', JInt 0), (''volume'', JInt 0),
         (''collection_timestamp'', JStr ''noon'')] \<and>
   process_and_store ''noon'' (JObj [(''ticker'', JStr ''KX-1'')]) one_market_agent =
     (Inr (), one_market_agent, []) \<and>
   validate_data sample_record"
proof -
  let ?d = "[(''ticker'', JStr ''KX-1''), (''title'', JStr ''N/A''), (''category'', JStr ''Unknown''),
         (''status'', JStr ''Unknown''), (''last_price'', JInt 0), (''volume'', JInt 0),
         (''collection_timestamp'', JStr ''noon'')]"
  have p: "process_data ''noon'' (JObj [(''ticker'', JStr ''KX-1'')]) = Inr ?d"
    by (simp add: get_or_def)
  have "\<not> (\<forall>f \<in> set [''ticker'', ''title'', ''category''].
         case map_of ?d f of None \<Rightarrow> False | Some v \<Rightarrow> truthy v \<and> v \<noteq> JStr ''N/A'')"
    by simp
  with validate_data_required_fields [of ?d "''noon''" "JObj [(''ticker'', JStr ''KX-1'')]" one_market_agent]
  have n: "\<not> validate_data ?d" by blast
  with p validate_data_required_fields [of ?d "''noon''" "JObj [(''ticker'', JStr ''KX-1'')]" one_market_agent]
  have s: "process_and_store ''noon'' (JObj [(''ticker'', JStr ''KX-1'')]) one_market_agent =
     (Inr (), one_market_agent, [])" by blast
  from p n s sample_valid show ?thesis by blast
qed

section \<open>Request counters\<close>

text \<open>
  C10. Every stored record passes \<open>validate_data\<close> (see \<open>collection_loop_store_valid\<close>),
  but the counters do not always add up: \<open>make_api_request\<close> counts a response with
  status 200 as successful before it reads the body, and the \<^verbatim>\<open>except\<close> branch counts
  the same request as failed when reading the body raises. On a new agent such a
  response leaves one request, one success and one failure.
\<close>

theorem make_api_request_double_count:
  "total_requests (fst (snd (make_api_request (Response 200 (Inl ValueError)) (agent_init None 0)))) = 1 \<and>
   successful_requests (fst (snd (make_api_request (Response 200 (Inl ValueError)) (agent_init None 0)))) = 1 \<and>
   failed_requests (fst (snd (make_api_request (Response 200 (Inl ValueError)) (agent_init None 0)))) = 1 \<and>
   total_requests (fst (snd (make_api_request (Response 200 (Inl ValueError)) (agent_init None 0)))) \<noteq>
     successful_requests (fst (snd (make_api_request (Response 200 (Inl ValueError)) (agent_init None 0)))) +
     failed_requests (fst (snd (make_api_request (Response 200 (Inl ValueError)) (agent_init None 0))))"
  by (simp add: make_api_request_def request_error_def agent_init_def default_config_def)

section \<open>Exception guards\<close>

text \<open>
  C2, as stated: \<open>get_cat_facts\<close>, asked for n facts, still attempts all n requests
  after one of them raises. It does not: its \<^verbatim>\<open>try\<close> encloses the whole loop. When
  the first of five requests times out, that one request is all it makes, although
  every later one would have succeeded.
\<close>

theorem all_requests_attempted_counterexample:
  "snd (snd (get_cat_facts first_times_out 5)) = 1 \<and>
   snd (snd (get_cat_facts first_times_out 5)) < 5 \<and>
   first_times_out 0 = Raises Timeout"
  by (simp add: get_cat_facts_def first_times_out_def numeral_eq_Suc)

text \<open>
  C2, amended. In the Kalshi agent and the holidays script the guard is around the single
  request. A request of the agent that raises yields \<^verbatim>\<open>None\<close> and is logged as an
  error; its pass stores nothing, and the loop then goes on with the passes that remain
  when the delay that closes the pass returns, and ends with the delay's exception when
  the delay raises. A holidays request that raises yields \<^verbatim>\<open>None\<close> and is logged; the
  loop records a count of 0 for the country and goes on with the remaining countries.
  In \<open>get_cat_facts\<close> the guard is around the loop: the first pass that raises is logged
  and ends the loop, the requests made are those up to and including it, and the facts
  returned are those gathered in the passes before it; when no pass raises, all n
  requests are made and the facts of all passes are returned.
\<close>

theorem request_exception_guards:
  "fst (make_api_request (Raises e) s) = JNull \<and>
   (\<exists>e'. snd (snd (make_api_request (Raises e) s)) = [(ERROR, RequestError e')]) \<and>
   (config s = JObj c \<longrightarrow>
      make_api_request (Raises e) s =
        (JNull, s\<lparr>total_requests := total_requests s + 1, failed_requests := failed_requests s + 1\<rparr>,
         [(ERROR, RequestError e)])) \<and>
   (t_http tk = Raises e \<longrightarrow>
      data_store (fst (snd (loop_body tk s))) = data_store s \<and>
      (\<exists>e'. (ERROR, RequestError e') \<in> set (snd (snd (loop_body tk s))))) \<and>
   (t_http tk = Raises e \<and> collection_complete s = Inr False \<and>
    respectful_delay (t_sleep_max tk) (t_jitter tk) (fst (snd (loop_body tk s))) = Inr d \<longrightarrow>
      collection_loop (tk # ticks) s =
        (case collection_loop ticks (fst (snd (loop_body tk s))) of
           None \<Rightarrow> None
         | Some (r, s2, l2) \<Rightarrow> Some (r, s2, snd (snd (loop_body tk s)) @ l2))) \<and>
   (t_http tk = Raises e \<and> collection_complete s = Inr False \<and>
    respectful_delay (t_sleep_max tk) (t_jitter tk) (fst (snd (loop_body tk s))) = Inl e2 \<longrightarrow>
      collection_loop (tk # ticks) s =
        Some (Inl e2, fst (snd (loop_body tk s)), snd (snd (loop_body tk s)))) \<and>
   get_public_holidays (Raises e) country year =
     (JNull, [(INFO, FetchingHolidays country year), holiday_handler country e]) \<and>
   (hnet country = Raises e \<longrightarrow>
      holiday_loop hnet (country # rest) cs =
        (case holiday_loop hnet rest (dict_set cs country 0) of
           (r, cs', l', requested) \<Rightarrow>
             (r, cs', [(INFO, FetchingHolidays country 2024), holiday_handler country e] @ l',
              country # requested))) \<and>
   (j < nat n \<and> pass_raises (cnet j) = Some e \<and> (\<forall>m<j. pass_raises (cnet m) = None) \<longrightarrow>
      snd (snd (get_cat_facts cnet n)) = Suc j \<and>
      fst (get_cat_facts cnet n) = gathered cnet 0 j \<and>
      cat_handler e \<in> set (fst (snd (get_cat_facts cnet n)))) \<and>
   ((\<forall>m<nat n. pass_raises (cnet m) = None) \<longrightarrow>
      snd (snd (get_cat_facts cnet n)) = nat n \<and>
      fst (get_cat_facts cnet n) = gathered cnet 0 (nat n))"
proof -
  have kalshi_pass: "t_http tk = Raises e \<longrightarrow>
      data_store (fst (snd (loop_body tk s))) = data_store s \<and>
      (\<exists>e'. (ERROR, RequestError e') \<in> set (snd (snd (loop_body tk s))))"
    using collect_batch_raise_logged [of e s] loop_body_raise(3) [of tk e s]
    by (auto simp: loop_body_raise(1) collect_batch_store)
  have kalshi_on: "t_http tk = Raises e \<and> collection_complete s = Inr False \<and>
    respectful_delay (t_sleep_max tk) (t_jitter tk) (fst (snd (loop_body tk s))) = Inr d \<longrightarrow>
      collection_loop (tk # ticks) s =
        (case collection_loop ticks (fst (snd (loop_body tk s))) of
           None \<Rightarrow> None
         | Some (r, s2, l2) \<Rightarrow> Some (r, s2, snd (snd (loop_body tk s)) @ l2))"
    using collection_loop_raise [of tk e s ticks] by auto
  have kalshi_off: "t_http tk = Raises e \<and> collection_complete s = Inr False \<and>
    respectful_delay (t_sleep_max tk) (t_jitter tk) (fst (snd (loop_body tk s))) = Inl e2 \<longrightarrow>
      collection_loop (tk # ticks) s =
        Some (Inl e2, fst (snd (loop_body tk s)), snd (snd (loop_body tk s)))"
    using collection_loop_raise [of tk e s ticks] by auto
  have cat_stop: "j < nat n \<and> pass_raises (cnet j) = Some e \<and> (\<forall>m<j. pass_raises (cnet m) = None) \<longrightarrow>
      snd (snd (get_cat_facts cnet n)) = Suc j \<and>
      fst (get_cat_facts cnet n) = gathered cnet 0 j \<and>
      cat_handler e \<in> set (fst (snd (get_cat_facts cnet n)))"
  proof
    assume h: "j < nat n \<and> pass_raises (cnet j) = Some e \<and> (\<forall>m<j. pass_raises (cnet m) = None)"
    then have "fst (fetch_loop cnet 0 (nat n) []) = Some e \<and>
        fst (snd (fetch_loop cnet 0 (nat n) [])) = [] @ gathered cnet 0 j \<and>
        snd (snd (snd (fetch_loop cnet 0 (nat n) []))) = Suc j"
      using fetch_loop_stops [of j "nat n" cnet 0 e "[]"] by simp
    then show "snd (snd (get_cat_facts cnet n)) = Suc j \<and>
      fst (get_cat_facts cnet n) = gathered cnet 0 j \<and>
      cat_handler e \<in> set (fst (snd (get_cat_facts cnet n)))"
      by (simp add: get_cat_facts_requests get_cat_facts_facts get_cat_facts_handler)
  qed
  have cat_all: "(\<forall>m<nat n. pass_raises (cnet m) = None) \<longrightarrow>
      snd (snd (get_cat_facts cnet n)) = nat n \<and>
      fst (get_cat_facts cnet n) = gathered cnet 0 (nat n)"
    using fetch_loop_completes [of "nat n" cnet 0 "[]"]
    by (simp add: get_cat_facts_requests get_cat_facts_facts)
  have hol: "hnet country = Raises e \<longrightarrow>
      holiday_loop hnet (country # rest) cs =
        (case holiday_loop hnet rest (dict_set cs country 0) of
           (r, cs', l', requested) \<Rightarrow>
             (r, cs', [(INFO, FetchingHolidays country 2024), holiday_handler country e] @ l',
              country # requested))"
    using holiday_loop_raise [of hnet country e rest cs] by blast
  have dict: "config s = JObj c \<longrightarrow>
      make_api_request (Raises e) s =
        (JNull, s\<lparr>total_requests := total_requests s + 1, failed_requests := failed_requests s + 1\<rparr>,
         [(ERROR, RequestError e)])"
    using make_api_request_raise_dict [of s c e] by blast
  from make_api_request_raise [of e s] dict kalshi_pass kalshi_on kalshi_off
    get_public_holidays_raise [of e country year] hol cat_stop cat_all
  show ?thesis by blast
qed

text \<open>
  An agent asked for one market whose first request times out goes on to a second pass
  and ends normally; with a delay that is not a number the same pass ends the loop with
  TypeError. The holidays loop whose US request cannot connect still requests CA and GB.
  A cat-facts run whose second request times out makes two requests and returns the one
  fact gathered before; a run in which nothing raises makes all five.
\<close>

theorem request_exception_guards_witness:
  "make_api_request (Raises Timeout) (agent_init None 0) =
     (JNull, (agent_init None 0)\<lparr>total_requests := 1, failed_requests := 1\<rparr>,
      [(ERROR, RequestError Timeout)]) \<and>
   t_http timeout_tick = Raises Timeout \<and>
   collection_complete one_market_agent = Inr False \<and>
   respectful_delay (t_sleep_max timeout_tick) (t_jitter timeout_tick)
     (fst (snd (loop_body timeout_tick one_market_agent))) = Inr 1 \<and>
   collection_loop [timeout_tick, sample_tick] one_market_agent =
     Some (Inr (),
           one_market_agent\<lparr>total_requests := 2, failed_requests := 1, delay_multiplier := 2,
             successful_requests := 1, data_store := [sample_record]\<rparr>,
           [(ERROR, RequestError Timeout), (INFO, Performance 0 0),
            (WARNING, LowSuccessRate 2), (INFO, StoredDataPoint 1 (JInt 1)),
            (INFO, Performance 1 (1 / 2))]) \<and>
   collection_complete unusable_delay_agent = Inr False \<and>
   respectful_delay (t_sleep_max timeout_tick) (t_jitter timeout_tick)
     (fst (snd (loop_body timeout_tick unusable_delay_agent))) = Inl TypeError \<and>
   collection_loop [timeout_tick, sample_tick] unusable_delay_agent =
     Some (Inl TypeError, unusable_delay_agent\<lparr>total_requests := 1, failed_requests := 1\<rparr>,
           [(ERROR, RequestError Timeout), (INFO, Performance 0 0)]) \<and>
   us_down ''US'' = Raises ConnectionError \<and>
   holiday_loop us_down [''US'', ''CA'', ''GB''] [] =
     (Inr (), [(''US'', 0), (''CA'', 1), (''GB'', 1)],
      [(INFO, FetchingHolidays ''US'' 2024), (ERROR, ConnectionErrorFor ''US''),
       (INFO, FetchingHolidays ''CA'' 2024), (INFO, RetrievedHolidays 1 ''CA''),
       (INFO, FetchingHolidays ''GB'' 2024), (INFO, RetrievedHolidays 1 ''GB'')],
      [''US'', ''CA'', ''GB'']) \<and>
   pass_raises (second_times_out 0) = None \<and>
   pass_raises (second_times_out 1) = Some Timeout \<and>
   snd (snd (get_cat_facts second_times_out 5)) = 2 \<and>
   fst (get_cat_facts second_times_out 5) = [JStr ''Cats purr.''] \<and>
   snd (snd (get_cat_facts always_fact 5)) = 5 \<and>
   fst (get_cat_facts always_fact 5) =
     [JStr ''Cats purr.'', JStr ''Cats purr.'', JStr ''Cats purr.'', JStr ''Cats purr.'',
      JStr ''Cats purr.'']"
proof -
  note agent_cat = request_exception_guards [of Timeout "agent_init None 0"
      "[(''base_delay'', JFloat 1.0), (''num_markets'', JInt 5), (''status_filter'', JStr ''open'')]"
      timeout_tick 1 "[sample_tick]" TypeError "''US''" 2024 us_down "[]" "[]" 1 5 second_times_out]
  note loop_on = request_exception_guards [of Timeout one_market_agent "[]"
      timeout_tick 1 "[sample_tick]" TypeError "''US''" 2024 us_down "[]" "[]" 1 5 second_times_out]
  note loop_off = request_exception_guards [of Timeout unusable_delay_agent "[]"
      timeout_tick 1 "[sample_tick]" TypeError "''US''" 2024 us_down "[]" "[]" 1 5 second_times_out]
  note holidays = request_exception_guards [of ConnectionError "agent_init None 0" "[]"
      timeout_tick 1 "[sample_tick]" TypeError "''US''" 2024 us_down "[''CA'', ''GB'']" "[]" 0 5 always_fact]
  have cfg: "config (agent_init None 0) =
      JObj [(''base_delay'', JFloat 1.0), (''num_markets'', JInt 5), (''status_filter'', JStr ''open'')]"
    by (simp add: agent_init_def default_config_def)
  with agent_cat have a: "make_api_request (Raises Timeout) (agent_init None 0) =
     (JNull, (agent_init None 0)\<lparr>total_requests := 1, failed_requests := 1\<rparr>,
      [(ERROR, RequestError Timeout)])"
    by (simp add: agent_init_def)
  have tk: "t_http timeout_tick = Raises Timeout" by (simp add: timeout_tick_def)
  have cc: "collection_complete one_market_agent = Inr False"
    by (simp add: collection_complete_def one_market_agent_def agent_init_def load_config_def get_or_def)
  have dl: "respectful_delay (t_sleep_max timeout_tick) (t_jitter timeout_tick)
              (fst (snd (loop_body timeout_tick one_market_agent))) = Inr 1"
    unfolding timeout_pass
    by (simp add: respectful_delay_def time_sleep_def timeout_tick_def one_market_agent_def
          agent_init_def load_config_def get_or_def)
  from loop_on tk cc dl have "collection_loop [timeout_tick, sample_tick] one_market_agent =
        (case collection_loop [sample_tick] (fst (snd (loop_body timeout_tick one_market_agent))) of
           None \<Rightarrow> None
         | Some (r, s2, l2) \<Rightarrow> Some (r, s2, snd (snd (loop_body timeout_tick one_market_agent)) @ l2))"
    by blast
  then have b: "collection_loop [timeout_tick, sample_tick] one_market_agent =
     Some (Inr (),
           one_market_agent\<lparr>total_requests := 2, failed_requests := 1, delay_multiplier := 2,
             successful_requests := 1, data_store := [sample_record]\<rparr>,
           [(ERROR, RequestError Timeout), (INFO, Performance 0 0),
            (WARNING, LowSuccessRate 2), (INFO, StoredDataPoint 1 (JInt 1)),
            (INFO, Performance 1 (1 / 2))])"
    by (simp add: timeout_pass after_timeout_loop del: collection_loop.simps)
  have cc': "collection_complete unusable_delay_agent = Inr False"
    by (simp add: collection_complete_def unusable_delay_agent_def agent_init_def load_config_def get_or_def)
  have dl': "respectful_delay (t_sleep_max timeout_tick) (t_jitter timeout_tick)
              (fst (snd (loop_body timeout_tick unusable_delay_agent))) = Inl TypeError"
    unfolding timeout_pass_unusable_delay
    by (simp add: respectful_delay_def timeout_tick_def unusable_delay_agent_def
          agent_init_def load_config_def get_or_def)
  from loop_off tk cc' dl' have "collection_loop [timeout_tick, sample_tick] unusable_delay_agent =
        Some (Inl TypeError, fst (snd (loop_body timeout_tick unusable_delay_agent)),
              snd (snd (loop_body timeout_tick unusable_delay_agent)))"
    by blast
  then have b': "collection_loop [timeout_tick, sample_tick] unusable_delay_agent =
     Some (Inl TypeError, unusable_delay_agent\<lparr>total_requests := 1, failed_requests := 1\<rparr>,
           [(ERROR, RequestError Timeout), (INFO, Performance 0 0)])"
    by (simp add: timeout_pass_unusable_delay del: collection_loop.simps)
  have us: "us_down ''US'' = Raises ConnectionError" by (simp add: us_down_def)
  with holidays have "holiday_loop us_down [''US'', ''CA'', ''GB''] [] =
        (case holiday_loop us_down [''CA'', ''GB''] (dict_set [] ''US'' 0) of
           (r, cs', l', requested) \<Rightarrow>
             (r, cs', [(INFO, FetchingHolidays ''US'' 2024), holiday_handler ''US'' ConnectionError] @ l',
              ''US'' # requested))"
    by blast
  also have "holiday_loop us_down [''CA'', ''GB''] (dict_set [] ''US'' 0) =
      (Inr (), [(''US'', 0), (''CA'', 1), (''GB'', 1)],
       [(INFO, FetchingHolidays ''CA'' 2024), (INFO, RetrievedHolidays 1 ''CA''),
        (INFO, FetchingHolidays ''GB'' 2024), (INFO, RetrievedHolidays 1 ''GB'')],
       [''CA'', ''GB''])"
    by (simp add: us_down_def one_holiday_def get_public_holidays_def print_holiday_details_def
          get_or_def)
  finally have c: "holiday_loop us_down [''US'', ''CA'', ''GB''] [] =
     (Inr (), [(''US'', 0), (''CA'', 1), (''GB'', 1)],
      [(INFO, FetchingHolidays ''US'' 2024), (ERROR, ConnectionErrorFor ''US''),
       (INFO, FetchingHolidays ''CA'' 2024), (INFO, RetrievedHolidays 1 ''CA''),
       (INFO, FetchingHolidays ''GB'' 2024), (INFO, RetrievedHolidays 1 ''GB'')],
      [''US'', ''CA'', ''GB''])"
    by simp
  have p0: "pass_raises (second_times_out 0) = None"
    and p1: "pass_raises (second_times_out 1) = Some Timeout"
    by (simp_all add: second_times_out_def get_or_def)
  have g1: "gathered second_times_out 0 1 = [JStr ''Cats purr.'']"
    by (simp add: gathered_def List.map_filter_simps second_times_out_def get_or_def)
  have "\<forall>m<1. pass_raises (second_times_out m) = None" using p0 by simp
  with agent_cat p1 g1 have d: "snd (snd (get_cat_facts second_times_out 5)) = 2"
    and d': "fst (get_cat_facts second_times_out 5) = [JStr ''Cats purr.'']"
    by simp_all
  have g5: "gathered always_fact 0 (nat 5) =
     [JStr ''Cats purr.'', JStr ''Cats purr.'', JStr ''Cats purr.'', JStr ''Cats purr.'',
      JStr ''Cats purr.'']"
    by (simp add: gathered_def List.map_filter_simps always_fact_def get_or_def upt_conv_Cons)
  have "\<forall>m<nat 5. pass_raises (always_fact m) = None"
    by (simp add: always_fact_def get_or_def)
  with holidays g5 have e: "snd (snd (get_cat_facts always_fact 5)) = 5"
    and e': "fst (get_cat_facts always_fact 5) =
     [JStr ''Cats purr.'', JStr ''Cats purr.'', JStr ''Cats purr.'', JStr ''Cats purr.'',
      JStr ''Cats purr.'']"
    by simp_all
  from a tk cc dl b cc' dl' b' us c p0 p1 d d' e e' show ?thesis by blast
qed

section \<open>Output files\<close>




end
